theory Spec2Isabelle
  imports Complex_Main
begin

section \<open>Values, types and messages\<close>

text \<open>
  The configuration engine of \<^verbatim>\<open>bernet/config.py\<close> builds typed objects from
  untyped data. The values it handles are the decoded JSON values (\<^verbatim>\<open>None\<close>,
  booleans, integers, floats, strings, lists, dictionaries), instances of schema classes
  (subclasses of \<^verbatim>\<open>ConfigObject\<close>) and numeric arrays. A dictionary is an association
  list in insertion order; an instance is its class name with its attribute values in
  the order in which \<^verbatim>\<open>__init__\<close> sets them (the attribute \<^verbatim>\<open>_name\<close> is stored under
  \<^verbatim>\<open>name\<close>). A finite float is given by the rational number it denotes; the
  infinities and \<^verbatim>\<open>nan\<close> are floats of their own. The values are trees: two places of
  a value never hold the same object.
\<close>

datatype pyfloat = Finite rat | PosInf | NegInf | NaN

datatype pyval =
    VNone
  | VBool bool
  | VInt int
  | VFloat pyfloat
  | VStr string
  | VList "pyval list"
  | VDict "(string \<times> pyval) list"
  | VArr "int list"
  | VInst string "(string \<times> pyval) list"

datatype pytype =
    TNone | TBool | TInt | TFloat | TStr | TList | TDict | TNdarray | TObject | TCls string

fun type_of :: "pyval \<Rightarrow> pytype" where
  "type_of VNone = TNone"
| "type_of (VBool b) = TBool"
| "type_of (VInt i) = TInt"
| "type_of (VFloat f) = TFloat"
| "type_of (VStr s) = TStr"
| "type_of (VList xs) = TList"
| "type_of (VDict m) = TDict"
| "type_of (VArr a) = TNdarray"
| "type_of (VInst c attrs) = TCls c"

text \<open>
  A message is the result of \<^verbatim>\<open>str.format\<close>: literal text and rendered arguments.
  The arguments are kept as they are given (\<^verbatim>\<open>str(v)\<close>, \<^verbatim>\<open>repr(v)\<close>, the
  \<^verbatim>\<open>__name__\<close> of a type, \<^verbatim>\<open>str\<close> of a type), because the rendering of an object
  contains its address. Concatenation of strings is concatenation of piece lists.
\<close>

datatype piece =
    Txt string
  | Str pyval
  | Repr pyval
  | TypeName pytype
  | StrType pytype

type_synonym message = "piece list"

datatype exn =
    ConfigException message
  | ValueError message
  | AttributeError
  | TypeError
  | IndexError
  | NotModelled

datatype 'a result = Return 'a | Raise exn

section \<open>Field descriptors and schema classes\<close>

text \<open>
  \<^verbatim>\<open>_TypeConstructableWrapper\<close> holds either a type (a plain type or a schema class)
  or a field descriptor. \<^verbatim>\<open>EITHER.__init__\<close> wraps only those of its arguments that
  are types; every other argument is a fixed value.
\<close>

datatype field =
    REQUIRED wrapper
  | OPTIONAL wrapper pyval
  | EITHER "pytype list" "pyval list"
  | REPEAT wrapper
  | SUBCLASS_OF pytype
and wrapper =
    TypeObj pytype
  | FieldObj field

record cls_info =
  ancestors :: "string list"
  config_properties :: "(string \<times> field) list"

type_synonym classes = "string \<Rightarrow> cls_info"

fun default :: "field \<Rightarrow> pyval" where
  "default (OPTIONAL t d) = d"
| "default (REPEAT t) = VList []"
| "default (REQUIRED t) = VNone"
| "default (EITHER ts fixes) = VNone"
| "default (SUBCLASS_OF ty) = VNone"

definition traceback_type :: "field \<Rightarrow> string" where
  "traceback_type fd = ''Field''"

fun issubclass :: "classes \<Rightarrow> pytype \<Rightarrow> pytype \<Rightarrow> bool" where
  "issubclass env t TObject = True"
| "issubclass env TBool TInt = True"
| "issubclass env (TCls c) (TCls d) = (c = d \<or> d \<in> set (ancestors (env c)))"
| "issubclass env t u = (t = u)"

definition isinstance :: "classes \<Rightarrow> pyval \<Rightarrow> pytype \<Rightarrow> bool" where
  "isinstance env v t = issubclass env (type_of v) t"

section \<open>The error context\<close>

record InitContext =
  stack :: "(string \<times> message) list"
  error_stack :: "message list"
  errors :: "message list"
  raise_exceptions :: bool

definition new_InitContext :: "bool \<Rightarrow> InitContext" where
  "new_InitContext r = \<lparr> stack = [], error_stack = [], errors = [], raise_exceptions = r \<rparr>"

definition n_errors :: "InitContext \<Rightarrow> nat" where
  "n_errors ctx = length (errors ctx)"

definition push :: "InitContext \<Rightarrow> string \<times> message \<Rightarrow> InitContext" where
  "push ctx obj = ctx \<lparr> stack := stack ctx @ [obj] \<rparr>"

text \<open>\<^verbatim>\<open>list.pop()\<close> on an empty list raises \<^verbatim>\<open>IndexError\<close>.\<close>

definition pop :: "InitContext \<Rightarrow> exn + InitContext" where
  "pop ctx = (if stack ctx = [] then Inl IndexError
              else Inr (ctx \<lparr> stack := butlast (stack ctx) \<rparr>))"

text \<open>
  \<^verbatim>\<open>step_into\<close> is a context manager: the frame is pushed, the body runs, and the
  \<^verbatim>\<open>finally\<close> clause pops whatever the body did. An exception of the body is
  re-raised after the pop; an exception of the pop itself replaces it.
\<close>

definition step_into ::
  "InitContext \<Rightarrow> string \<Rightarrow> message \<Rightarrow> (InitContext \<Rightarrow> 'a result \<times> InitContext)
     \<Rightarrow> 'a result \<times> InitContext" where
  "step_into ctx obj name body =
     (case body (push ctx (obj, name)) of
        (r, c) \<Rightarrow> (case pop c of Inl e \<Rightarrow> (Raise e, c) | Inr c' \<Rightarrow> (r, c')))"

definition ljust :: "nat \<Rightarrow> string \<Rightarrow> string" where
  "ljust n s = s @ replicate (n - length s) (CHR '' '')"

fun join :: "message \<Rightarrow> message list \<Rightarrow> message" where
  "join sep [] = []"
| "join sep [x] = x"
| "join sep (x # y # ys) = x @ sep @ join sep (y # ys)"

definition newline :: string where
  "newline = [CHR 0x0A]"

definition error_str :: "(string \<times> message) list \<Rightarrow> message \<Rightarrow> message" where
  "error_str st msg =
     (let idents = rev (map (\<lambda>(obj, name). Txt (ljust 10 (obj @ '': '')) # name) st);
          parse_stack = (if length idents > 0
                         then Txt (newline @ ''Traceback:'' @ newline @ ''    '')
                              # join [Txt ('','' @ newline @ ''    '')] idents
                         else [])
      in msg @ parse_stack)"

definition error :: "InitContext \<Rightarrow> message \<Rightarrow> unit result \<times> InitContext" where
  "error ctx msg =
     (let e = error_str (stack ctx) msg;
          ctx' = ctx \<lparr> errors := errors ctx @ [e] \<rparr>
      in if raise_exceptions ctx then (Raise (ConfigException e), ctx')
         else (Return (), ctx'))"

definition errors_str :: "InitContext \<Rightarrow> message" where
  "errors_str ctx = join [Txt newline] (errors ctx)"

text \<open>A call of \<^verbatim>\<open>ctx.error\<close> as the last statement of a method: the method returns
  \<^verbatim>\<open>None\<close> unless the error was raised.\<close>

definition error_none :: "InitContext \<Rightarrow> message \<Rightarrow> pyval result \<times> InitContext" where
  "error_none ctx msg =
     (case error ctx msg of
        (Raise e, c) \<Rightarrow> (Raise e, c)
      | (Return u, c) \<Rightarrow> (Return VNone, c))"

section \<open>Equality of values\<close>

text \<open>
  \<^verbatim>\<open>==\<close> on the values: \<^verbatim>\<open>bool\<close> is a subclass of \<^verbatim>\<open>int\<close> and compares as a number,
  integers and floats compare by their exact values, \<^verbatim>\<open>nan\<close> is equal to nothing, not
  even to itself, lists compare their lengths and then their elements, dictionaries compare their sizes
  and then the value under each key, and an instance compares with
  \<^verbatim>\<open>ConfigObject.__eq__\<close>. \<^verbatim>\<open>!=\<close> is the negation of \<^verbatim>\<open>==\<close> on all of them.
  A list and a dictionary take an element that is the same object as its counterpart
  for equal without comparing it; the model compares the values, which differs only
  for a value that is not equal to itself, such as \<^verbatim>\<open>nan\<close>.
  The comparison of a numeric array is elementwise and is not a truth value;
  \<^verbatim>\<open>__eq__\<close> treats an array attribute before it compares, and every other comparison
  with an array is outside the model (\<open>NotModelled\<close>). An instance that lacks an
  attribute raises \<^verbatim>\<open>AttributeError\<close> in \<^verbatim>\<open>getattr\<close>.
\<close>

definition np_eq :: "int list \<Rightarrow> int list \<Rightarrow> bool list" where
  "np_eq a b = map (\<lambda>(x, y). x = y) (zip a b)"

definition np_all :: "bool list \<Rightarrow> bool" where
  "np_all bs = list_all (\<lambda>b. b) bs"

definition int_of_bool :: "bool \<Rightarrow> int" where
  "int_of_bool b = (if b then 1 else 0)"

definition float_of_int :: "int \<Rightarrow> pyfloat" where
  "float_of_int i = Finite (of_int i)"

definition float_eq :: "pyfloat \<Rightarrow> pyfloat \<Rightarrow> bool" where
  "float_eq f g = (f \<noteq> NaN \<and> f = g)"

function
  py_eq :: "classes \<Rightarrow> pyval \<Rightarrow> pyval \<Rightarrow> bool result"
  and list_eq :: "classes \<Rightarrow> pyval list \<Rightarrow> pyval list \<Rightarrow> bool result"
  and dict_eq :: "classes \<Rightarrow> (string \<times> pyval) list \<Rightarrow> (string \<times> pyval) list \<Rightarrow> bool result"
  and eq_props :: "classes \<Rightarrow> string list \<Rightarrow> (string \<times> pyval) list \<Rightarrow> (string \<times> pyval) list
        \<Rightarrow> bool result"
where
  "py_eq env (VArr a) w = Raise NotModelled"
| "py_eq env (VInst c attrs) w =
     (case w of
        VArr b \<Rightarrow> Raise NotModelled
      | VInst d attrs' \<Rightarrow>
          (if TCls c \<noteq> TCls d then Return False
           else eq_props env (map fst (config_properties (env c))) attrs attrs')
      | _ \<Rightarrow> Return False)"
| "py_eq env VNone w =
     (case w of VNone \<Rightarrow> Return True | VArr b \<Rightarrow> Raise NotModelled | _ \<Rightarrow> Return False)"
| "py_eq env (VBool x) w =
     (case w of
        VBool y \<Rightarrow> Return (x = y)
      | VInt j \<Rightarrow> Return (int_of_bool x = j)
      | VFloat g \<Rightarrow> Return (float_eq (float_of_int (int_of_bool x)) g)
      | VArr b \<Rightarrow> Raise NotModelled
      | _ \<Rightarrow> Return False)"
| "py_eq env (VInt i) w =
     (case w of
        VBool y \<Rightarrow> Return (i = int_of_bool y)
      | VInt j \<Rightarrow> Return (i = j)
      | VFloat g \<Rightarrow> Return (float_eq (float_of_int i) g)
      | VArr b \<Rightarrow> Raise NotModelled
      | _ \<Rightarrow> Return False)"
| "py_eq env (VFloat f) w =
     (case w of
        VBool y \<Rightarrow> Return (float_eq f (float_of_int (int_of_bool y)))
      | VInt j \<Rightarrow> Return (float_eq f (float_of_int j))
      | VFloat g \<Rightarrow> Return (float_eq f g)
      | VArr b \<Rightarrow> Raise NotModelled
      | _ \<Rightarrow> Return False)"
| "py_eq env (VStr s) w =
     (case w of VStr t \<Rightarrow> Return (s = t) | VArr b \<Rightarrow> Raise NotModelled | _ \<Rightarrow> Return False)"
| "py_eq env (VList xs) w =
     (case w of
        VList ys \<Rightarrow> (if length xs \<noteq> length ys then Return False else list_eq env xs ys)
      | VArr b \<Rightarrow> Raise NotModelled
      | _ \<Rightarrow> Return False)"
| "py_eq env (VDict m) w =
     (case w of
        VDict n \<Rightarrow> (if length m \<noteq> length n then Return False else dict_eq env m n)
      | VArr b \<Rightarrow> Raise NotModelled
      | _ \<Rightarrow> Return False)"
| "list_eq env [] [] = Return True"
| "list_eq env [] (y # ys) = Return False"
| "list_eq env (x # xs) [] = Return False"
| "list_eq env (x # xs) (y # ys) =
     (case py_eq env x y of
        Raise e \<Rightarrow> Raise e
      | Return False \<Rightarrow> Return False
      | Return True \<Rightarrow> list_eq env xs ys)"
| "dict_eq env [] n = Return True"
| "dict_eq env (kv # m) n =
     (case map_of n (fst kv) of
        None \<Rightarrow> Return False
      | Some w \<Rightarrow>
          (case py_eq env (snd kv) w of
             Raise e \<Rightarrow> Raise e
           | Return False \<Rightarrow> Return False
           | Return True \<Rightarrow> dict_eq env m n))"
| "eq_props env [] attrs attrs' = Return True"
| "eq_props env (prop_name # rest) attrs attrs' =
     (case map_of attrs prop_name of
        None \<Rightarrow> Raise AttributeError
      | Some self_prop \<Rightarrow>
          (case map_of attrs' prop_name of
             None \<Rightarrow> Raise AttributeError
           | Some other_prop \<Rightarrow>
               (if \<not> isinstance env self_prop (type_of other_prop)
                   \<or> \<not> isinstance env other_prop (type_of self_prop)
                then Return False
                else (case self_prop of
                        VArr a \<Rightarrow>
                          (if \<not> np_all (np_eq a a) then Return False
                           else eq_props env rest attrs attrs')
                      | _ \<Rightarrow>
                          (case py_eq env self_prop other_prop of
                             Raise e \<Rightarrow> Raise e
                           | Return False \<Rightarrow> Return False
                           | Return True \<Rightarrow> eq_props env rest attrs attrs')))))"
  by pat_completeness auto


lemma size_map_of:
  "map_of m k = Some v \<Longrightarrow> size v < Suc (size_list (size_prod (\<lambda>x. 0) size) m)"
proof -
  assume "map_of m k = Some v"
  then have "(k, v) \<in> set m" by (rule map_of_SomeD)
  then show ?thesis by (induction m) auto
qed

lemma size_snd: "size (snd kv) < Suc (Suc (size_prod (\<lambda>x. 0) size kv + n))"
  by (cases kv) simp

termination py_eq
  apply (relation "inv_image (less_than <*lex*> less_than <*lex*> less_than)
     (\<lambda>x. case x of
        Inl (Inl (env, v, w)) \<Rightarrow> (size v, Suc 0, 0)
      | Inl (Inr (env, xs, ys)) \<Rightarrow> (size (VList xs), 0, 0)
      | Inr (Inl (env, m, n)) \<Rightarrow> (size (VDict m), 0, 0)
      | Inr (Inr (env, ns, attrs, attrs')) \<Rightarrow> (size (VInst [] attrs), 0, length ns))")
  apply (intro wf_inv_image wf_lex_prod wf_less_than)
  apply (auto simp: size_map_of size_snd dest: size_map_of)
  done

section \<open>Construction\<close>

definition expected_type_msg :: "pytype \<Rightarrow> pyval \<Rightarrow> message" where
  "expected_type_msg ty v =
     [Txt ''Expected type `'', TypeName ty, Txt ''`, but got value `'', Str v,
      Txt ''` with type `'', TypeName (type_of v), Txt ''`.'']"

definition subclass_msg :: "pytype \<Rightarrow> pyval \<Rightarrow> message" where
  "subclass_msg ty v =
     [Txt ''Got value `'', Str v, Txt ''` of type `'', TypeName (type_of v),
      Txt ''`. Expected a subclass of `'', TypeName ty, Txt ''``'']"

definition at_element :: "nat \<Rightarrow> message" where
  "at_element i = [Txt ''at element '', Str (VInt (int i))]"

definition kwargs_get :: "(string \<times> pyval) list \<Rightarrow> string \<Rightarrow> pyval" where
  "kwargs_get kwargs k = (case map_of kwargs k of None \<Rightarrow> VNone | Some v \<Rightarrow> v)"

definition unknown_key_msg :: "string \<Rightarrow> string list \<Rightarrow> message" where
  "unknown_key_msg k valid_keys =
     [Repr (VStr k), Txt '' is not in the allowed keys `'',
      Str (VList (map VStr valid_keys)), Txt ''`'']"

text \<open>The loop over \<^verbatim>\<open>kwargs.items()\<close> at the end of \<^verbatim>\<open>__init__\<close>: the first key
  that is not a valid key raises \<^verbatim>\<open>ValueError\<close>.\<close>

definition check_keys :: "string list \<Rightarrow> string list \<Rightarrow> exn option" where
  "check_keys valid_keys ks =
     (case find (\<lambda>k. k \<notin> set valid_keys) ks of
        None \<Rightarrow> None
      | Some k \<Rightarrow> Some (ValueError (unknown_key_msg k valid_keys)))"

text \<open>The second half of \<^verbatim>\<open>EITHER._construct\<close>, after the loop over the type
  alternatives has filled \<^verbatim>\<open>constructed_values\<close>.\<close>

fun fix_truths :: "classes \<Rightarrow> pyval \<Rightarrow> pyval list \<Rightarrow> bool list result" where
  "fix_truths env v [] = Return []"
| "fix_truths env v (fix # fixes) =
     (case py_eq env v fix of
        Raise e \<Rightarrow> Raise e
      | Return b \<Rightarrow>
          (case fix_truths env v fixes of
             Raise e \<Rightarrow> Raise e
           | Return bs \<Rightarrow> Return (b # bs)))"

definition satisfies_msg :: "pyval \<Rightarrow> message list \<Rightarrow> message" where
  "satisfies_msg v true_values =
     [Txt ''Value `'', Str v, Txt ''` satisfies ''] @ join [Txt '', ''] (butlast true_values)
     @ [Txt '' and ''] @ last true_values @ [Txt '' '']"

definition satisfies_none_msg :: "pyval \<Rightarrow> message list \<Rightarrow> message" where
  "satisfies_none_msg v all =
     [Txt ''Value `'', Str v, Txt (''` doesn'' @ [CHR 0x27] @ ''t satisfy any of `'')]
     @ join [Txt ''`, `''] (butlast all) @ [Txt ''` or `''] @ last all @ [Txt ''`'']"

definition either_decide ::
  "classes \<Rightarrow> pytype list \<Rightarrow> pyval list \<Rightarrow> pyval list \<Rightarrow> pyval \<Rightarrow> InitContext
     \<Rightarrow> pyval result \<times> InitContext" where
  "either_decide env types fix_values constructed_values v ctx =
     (case fix_truths env v fix_values of
        Raise e \<Rightarrow> (Raise e, ctx)
      | Return fts \<Rightarrow>
          (let truths = map (\<lambda>c. c \<noteq> VNone) constructed_values @ fts
           in if count_list truths True \<noteq> 1 then
                (let all = map (\<lambda>t. [StrType t]) types @ map (\<lambda>f. [Str f]) fix_values;
                     true_values = map snd (filter fst (zip truths all))
                 in if true_values \<noteq> [] then error_none ctx (satisfies_msg v true_values)
                    else if all = [] then (Raise IndexError, ctx)
                    else error_none ctx (satisfies_none_msg v all))
              else if constructed_values \<noteq> [] then (Return (hd constructed_values), ctx)
              else (Return v, ctx)))"

text \<open>
  \<^verbatim>\<open>__init__\<close> installs for every field a property of that name on the class
  (\<^verbatim>\<open>_add_property\<close>) and stores the value of the field \<^verbatim>\<open>name\<close> in the attribute
  \<^verbatim>\<open>_name\<close> of the instance (\<^verbatim>\<open>setattr\<close> in \<^verbatim>\<open>_set_property\<close>). For an ordinary field
  name neither touches what the class has already: the name does not begin with an
  underscore (so it is no private method, no special attribute, not \<^verbatim>\<open>__ctx__\<close>, and
  \<^verbatim>\<open>_name\<close> is not a field with a property of its own), it is not an attribute the
  engine looks up on the class (\<^verbatim>\<open>construct\<close>, \<^verbatim>\<open>new_with_ctx\<close>, \<^verbatim>\<open>from_json\<close>), and
  \<^verbatim>\<open>_name\<close> is not a method of the object. For other names the stored attribute goes
  through a property or hides a method, in a way that depends on the instances made
  before; a class with such a field is outside the model.
\<close>

definition reserved_names :: "string list" where
  "reserved_names =
     [''construct'', ''new_with_ctx'', ''from_json'',
      ''add_property'', ''get_property'', ''set_property'', ''get_ctx'', ''to_builtin'']"

definition ordinary_name :: "string \<Rightarrow> bool" where
  "ordinary_name name =
     ((case name of [] \<Rightarrow> True | ch # rest \<Rightarrow> ch \<noteq> CHR ''_'')
      \<and> name \<notin> set reserved_names)"

text \<open>
  The construction functions call each other: the wrapper and the descriptors, the
  loops of \<^verbatim>\<open>EITHER\<close> and \<^verbatim>\<open>REPEAT\<close>, and the construction of a schema object from a
  dictionary. \<^verbatim>\<open>new_with_ctx\<close> stores the context in the dictionary under
  \<^verbatim>\<open>__ctx__\<close> and calls the class with the dictionary as keyword arguments. The call
  binds the instance to the parameter \<^verbatim>\<open>self\<close> of \<^verbatim>\<open>__init__\<close>, so a key \<^verbatim>\<open>self\<close> raises
  \<^verbatim>\<open>TypeError\<close> before \<^verbatim>\<open>__init__\<close> runs; otherwise the equation is the body of
  \<^verbatim>\<open>__init__\<close> with the context found under \<^verbatim>\<open>__ctx__\<close>. \<^verbatim>\<open>_set_property\<close> is the
  construction and the default; its \<^verbatim>\<open>setattr\<close> is the pair that the loop over the
  fields adds to the attributes of the instance. The context is passed beside the
  dictionary, whose other entries are the keyword arguments. The entry \<^verbatim>\<open>__ctx__\<close>
  that the source adds to the dictionary of its caller is not kept in the value: in
  the source it shows where that same dictionary is rendered in a later message or
  returned by the alternative \<^verbatim>\<open>dict\<close> of an \<^verbatim>\<open>EITHER\<close>. Neither a plain type nor a schema class has an attribute
  \<^verbatim>\<open>construct\<close>, so the third branch of the wrapper is taken by descriptors only. The
  iteration over a numeric array is outside the model.
\<close>

function
  wrapper_construct :: "classes \<Rightarrow> wrapper \<Rightarrow> pyval \<Rightarrow> InitContext \<Rightarrow> pyval result \<times> InitContext"
  and field_construct :: "classes \<Rightarrow> field \<Rightarrow> pyval \<Rightarrow> InitContext \<Rightarrow> pyval result \<times> InitContext"
  and either_types :: "classes \<Rightarrow> pytype list \<Rightarrow> pyval \<Rightarrow> InitContext \<Rightarrow> pyval list result \<times> InitContext"
  and repeat_elems :: "classes \<Rightarrow> wrapper \<Rightarrow> nat \<Rightarrow> pyval list \<Rightarrow> InitContext \<Rightarrow> pyval list result \<times> InitContext"
  and set_property :: "classes \<Rightarrow> field \<Rightarrow> pyval \<Rightarrow> InitContext \<Rightarrow> pyval result \<times> InitContext"
  and init_fields :: "classes \<Rightarrow> (string \<times> field) list \<Rightarrow> (string \<times> pyval) list \<Rightarrow> InitContext
       \<Rightarrow> (string \<times> pyval) list result \<times> InitContext"
  and new_with_ctx :: "classes \<Rightarrow> string \<Rightarrow> InitContext \<Rightarrow> (string \<times> pyval) list \<Rightarrow> pyval result \<times> InitContext"
where
  "wrapper_construct env (TypeObj ty) v ctx =
     (if type_of v = ty then (Return v, ctx)
      else (case ty of
              TCls c \<Rightarrow> (case v of
                           VDict m \<Rightarrow> new_with_ctx env c ctx m
                         | _ \<Rightarrow> error_none ctx (expected_type_msg ty v))
            | _ \<Rightarrow> error_none ctx (expected_type_msg ty v)))"
| "wrapper_construct env (FieldObj f) v ctx = field_construct env f v ctx"
| "field_construct env (REQUIRED t) v ctx = wrapper_construct env t v ctx"
| "field_construct env (OPTIONAL t d) v ctx =
     (if v = VNone then (Return d, ctx) else wrapper_construct env t v ctx)"
| "field_construct env (EITHER ts fixes) v ctx =
     (case either_types env ts v ctx of
        (Raise e, c) \<Rightarrow> (Raise e, c)
      | (Return constructed_values, c) \<Rightarrow>
          either_decide env ts fixes constructed_values v c)"
| "field_construct env (REPEAT t) v ctx =
     (case v of
        VNone \<Rightarrow> (Return VNone, ctx)
      | VStr s \<Rightarrow> error_none ctx [Txt ''Expected a list, but got a str.'']
      | VList xs \<Rightarrow>
          (case repeat_elems env t 0 xs ctx of
             (Raise e, c) \<Rightarrow> (Raise e, c)
           | (Return ys, c) \<Rightarrow> (Return (VList ys), c))
      | VDict m \<Rightarrow>
          (case repeat_elems env t 0 (map (\<lambda>kv. VStr (fst kv)) m) ctx of
             (Raise e, c) \<Rightarrow> (Raise e, c)
           | (Return ys, c) \<Rightarrow> (Return (VList ys), c))
      | VArr a \<Rightarrow> (Raise NotModelled, ctx)
      | _ \<Rightarrow> error_none ctx [Txt ''Expected a listlike type, but got type '',
                               TypeName (type_of v), Txt ''.''])"
| "field_construct env (SUBCLASS_OF ty) v ctx =
     (if issubclass env (type_of v) ty then (Return v, ctx)
      else error_none ctx (subclass_msg ty v))"
| "either_types env [] v ctx = (Return [], ctx)"
| "either_types env (t # ts) v ctx =
     (case wrapper_construct env (TypeObj t) v ctx of
        (Return r, c) \<Rightarrow>
          (case either_types env ts v c of
             (Raise e, c') \<Rightarrow> (Raise e, c')
           | (Return rs, c') \<Rightarrow> (Return (r # rs), c'))
      | (Raise (ConfigException m), c) \<Rightarrow>
          (case either_types env ts v c of
             (Raise e, c') \<Rightarrow> (Raise e, c')
           | (Return rs, c') \<Rightarrow> (Return (VNone # rs), c'))
      | (Raise e, c) \<Rightarrow> (Raise e, c))"
| "repeat_elems env t i [] ctx = (Return [], ctx)"
| "repeat_elems env t i (el # els) ctx =
     (case step_into ctx ''List'' (at_element i) (\<lambda>c. wrapper_construct env t el c) of
        (Raise e, c) \<Rightarrow> (Raise e, c)
      | (Return r, c) \<Rightarrow>
          (case repeat_elems env t (Suc i) els c of
             (Raise e, c') \<Rightarrow> (Raise e, c')
           | (Return rs, c') \<Rightarrow> (Return (r # rs), c')))"
| "set_property env fd v ctx =
     (case field_construct env fd v ctx of
        (Raise e, c) \<Rightarrow> (Raise e, c)
      | (Return r, c) \<Rightarrow> (Return (if r = VNone then default fd else r), c))"
| "init_fields env [] kwargs ctx = (Return [], ctx)"
| "init_fields env (p # ps) kwargs ctx =
     (case step_into ctx (traceback_type (snd p)) [Txt (fst p)]
             (\<lambda>c. set_property env (snd p) (kwargs_get kwargs (fst p)) c) of
        (Raise e, c) \<Rightarrow> (Raise e, c)
      | (Return r, c) \<Rightarrow>
          (case init_fields env ps kwargs c of
             (Raise e, c') \<Rightarrow> (Raise e, c')
           | (Return rs, c') \<Rightarrow> (Return ((fst p, r) # rs), c')))"
| "new_with_ctx env cls ctx obj =
     (if ''self'' \<in> set (map fst obj) then (Raise TypeError, ctx)
      else if \<not> list_all ordinary_name (map fst (config_properties (env cls)))
      then (Raise NotModelled, ctx)
      else
        (case step_into ctx ''Object'' [Txt cls]
                (\<lambda>c. init_fields env (config_properties (env cls)) obj c) of
           (Raise e, c) \<Rightarrow> (Raise e, c)
         | (Return attrs, c) \<Rightarrow>
             (case check_keys (map fst (config_properties (env cls)) @ [''__ctx__''])
                     (map fst obj) of
                Some e \<Rightarrow> (Raise e, c)
              | None \<Rightarrow> (Return (VInst cls attrs), c))))"
  by pat_completeness auto

lemma size_kwargs_get:
  "size (kwargs_get kwargs k) < Suc (size_list (size_prod (\<lambda>x. 0) size) kwargs)"
  by (cases "map_of kwargs k") (auto simp: kwargs_get_def dest: size_map_of)

lemma size_keys:
  "size_list (size \<circ> (\<lambda>kv. VStr (fst kv))) m < size_list (size_prod (\<lambda>x. 0) size) m
   \<or> size_list (size \<circ> (\<lambda>kv. VStr (fst kv))) m = size_list (size_prod (\<lambda>x. 0) size) m"
  by (induction m) auto

definition construct_measure where
  "construct_measure x =
     (case x of
        Inl (Inl (env, t, v, ctx)) \<Rightarrow>
          (size v, (case t of TypeObj ty \<Rightarrow> 2 | FieldObj f \<Rightarrow> 4), size t)
      | Inl (Inr (Inl (env, fd, v, ctx))) \<Rightarrow> (size v, 4, size fd)
      | Inl (Inr (Inr (env, ts, v, ctx))) \<Rightarrow> (size v, 3, length ts)
      | Inr (Inl (Inl (env, t, i, els, ctx))) \<Rightarrow> (size (VList els), 3, 0)
      | Inr (Inl (Inr (env, fd, v, ctx))) \<Rightarrow> (size v, 5, 0)
      | Inr (Inr (Inl (env, ps, kwargs, ctx))) \<Rightarrow> (size (VDict kwargs), 0, length ps)
      | Inr (Inr (Inr (env, cls, ctx, obj))) \<Rightarrow> (size (VDict obj), Suc 0, 0::nat))"

termination wrapper_construct
  apply (relation "inv_image (less_than <*lex*> less_than <*lex*> less_than) construct_measure")
  apply (intro wf_inv_image wf_lex_prod wf_less_than)
  apply (simp_all add: construct_measure_def size_kwargs_get size_keys split: wrapper.splits)
  done



text \<open>
  A schema class called with keyword arguments, \<^verbatim>\<open>cls(**kwargs)\<close>: a key \<^verbatim>\<open>self\<close>
  raises \<^verbatim>\<open>TypeError\<close> in the call; \<^verbatim>\<open>_get_ctx\<close> takes
  the context from the key \<^verbatim>\<open>__ctx__\<close> and makes a raising one when the key is absent.
  A value of the model under that key is not a context, and its use raises
  \<^verbatim>\<open>AttributeError\<close>.
\<close>

definition call_class :: "classes \<Rightarrow> string \<Rightarrow> (string \<times> pyval) list \<Rightarrow> pyval result" where
  "call_class env cls kwargs =
     (if ''self'' \<in> set (map fst kwargs) then Raise TypeError
      else if ''__ctx__'' \<in> set (map fst kwargs) then Raise AttributeError
      else fst (new_with_ctx env cls (new_InitContext True) kwargs))"

section \<open>Serialization\<close>


section \<open>Parsing from text\<close>

text \<open>
  \<^verbatim>\<open>from_json\<close> is modelled from the decoded value on (\<^verbatim>\<open>json.loads\<close> is the library's).
  Storing the context in a value that is not a dictionary raises \<^verbatim>\<open>TypeError\<close>. The
  function returns the object, or it prints the report and returns (it does not raise)
  a \<^verbatim>\<open>ValueError\<close>; the second component of the result is what was printed.
\<close>

datatype loaded = Loaded pyval | ValueErrorObject message

definition print_report :: "InitContext \<Rightarrow> message list" where
  "print_report ctx =
     (if n_errors ctx \<noteq> 0
      then [[Txt ''There occurred '', Str (VInt (int (n_errors ctx))), Txt ('' errors '' @ newline)]
            @ errors_str ctx]
      else [])"

definition from_json :: "classes \<Rightarrow> string \<Rightarrow> pyval \<Rightarrow> loaded result \<times> message list" where
  "from_json env cls raw_obj =
     (case raw_obj of
        VDict m \<Rightarrow>
          (case new_with_ctx env cls (new_InitContext False) m of
             (Raise e, ctx) \<Rightarrow> (Raise e, [])
           | (Return obj, ctx) \<Rightarrow>
               (if n_errors ctx \<noteq> 0
                then (Return (ValueErrorObject [Txt ''Could not load '', TypeName (TCls cls)]),
                      print_report ctx)
                else (Return (Loaded obj), [])))
      | _ \<Rightarrow> (Raise TypeError, []))"

section \<open>Notions used in the statements\<close>




text \<open>The keys \<^verbatim>\<open>__init__\<close> accepts: the declared field names and \<^verbatim>\<open>__ctx__\<close>.\<close>

definition valid_keys :: "classes \<Rightarrow> string \<Rightarrow> string list" where
  "valid_keys env cls = map fst (config_properties (env cls)) @ [''__ctx__'']"


section \<open>Example schemas\<close>

text \<open>
  The schemas of the scenarios: \<^verbatim>\<open>Point\<close> with two required integers, \<^verbatim>\<open>Drawing\<close> with a
  field that is either a \<^verbatim>\<open>Point\<close> or the literal \<^verbatim>\<open>"circle"\<close> and a repeated field of
  points, \<^verbatim>\<open>Label\<close> with a field that is either a string or an integer, \<^verbatim>\<open>Weights\<close>
  with a numeric array, \<^verbatim>\<open>Flag\<close> with a boolean, \<^verbatim>\<open>Limit\<close> with an optional integer
  that has no default, \<^verbatim>\<open>Tagged\<close> with an optional integer whose default is the string
  \<^verbatim>\<open>"none"\<close>, \<^verbatim>\<open>Ratio\<close> with a float, \<^verbatim>\<open>Selfish\<close> with a repeated field named
  \<^verbatim>\<open>self\<close>, and \<^verbatim>\<open>Empty\<close> with no field.
\<close>

definition example_properties :: "string \<Rightarrow> (string \<times> field) list" where
  "example_properties cls =
     (if cls = ''Point'' then
        [(''x'', REQUIRED (TypeObj TInt)), (''y'', REQUIRED (TypeObj TInt))]
      else if cls = ''Drawing'' then
        [(''shape'', EITHER [TCls ''Point''] [VStr ''circle'']),
         (''points'', REPEAT (TypeObj (TCls ''Point'')))]
      else if cls = ''Label'' then
        [(''text'', EITHER [TStr, TInt] [])]
      else if cls = ''Weights'' then
        [(''w'', REQUIRED (TypeObj TNdarray))]
      else if cls = ''Flag'' then
        [(''on'', REQUIRED (TypeObj TBool))]
      else if cls = ''Limit'' then
        [(''n'', OPTIONAL (TypeObj TInt) VNone)]
      else if cls = ''Tagged'' then
        [(''t'', OPTIONAL (TypeObj TInt) (VStr ''none''))]
      else if cls = ''Ratio'' then
        [(''r'', REQUIRED (TypeObj TFloat))]
      else if cls = ''Selfish'' then
        [(''self'', REPEAT (TypeObj TInt))]
      else [])"

definition example_classes :: classes where
  "example_classes cls =
     \<lparr> ancestors = [''ConfigObject''], config_properties = example_properties cls \<rparr>"

section \<open>Self-describing schemas\<close>










section \<open>The frame stack\<close>

lemma stack_error_none: "stack (snd (error_none ctx msg)) = stack ctx"
  by (simp add: error_none_def error_def Let_def)

lemma stack_either_decide:
  "stack (snd (either_decide env ts fixes cvs v ctx)) = stack ctx"
  by (simp add: either_decide_def Let_def stack_error_none split: result.splits)

lemma stack_step_into:
  assumes "\<And>c. stack (snd (body c)) = stack c"
  shows "stack (snd (step_into ctx obj name body)) = stack ctx"
proof -
  obtain r c where b: "body (push ctx (obj, name)) = (r, c)" by force
  then have "stack c = stack ctx @ [(obj, name)]"
    using assms [of "push ctx (obj, name)"] by (simp add: push_def)
  with b show ?thesis by (simp add: step_into_def pop_def)
qed

lemma stack_preserved:
  "stack (snd (wrapper_construct env t v ctx)) = stack ctx"
  "stack (snd (field_construct env fd v ctx)) = stack ctx"
  "stack (snd (either_types env ts v ctx)) = stack ctx"
  "stack (snd (repeat_elems env t i els ctx)) = stack ctx"
  "stack (snd (set_property env fd v ctx)) = stack ctx"
  "stack (snd (init_fields env ps kwargs ctx)) = stack ctx"
  "stack (snd (new_with_ctx env cls ctx obj)) = stack ctx"
proof (induction env t v ctx and env fd v ctx and env ts v ctx and env t i els ctx
         and env fd v ctx and env ps kwargs ctx and env cls ctx obj
       rule: wrapper_construct_field_construct_either_types_repeat_elems_set_property_init_fields_new_with_ctx.induct)
  case (1 env ty v ctx)
  then show ?case
    by (auto simp: stack_error_none split: pytype.splits pyval.splits)
next
  case (2 env f v ctx)
  then show ?case by simp
next
  case (3 env t v ctx)
  then show ?case by simp
next
  case (4 env t d v ctx)
  then show ?case by simp
next
  case (5 env ts fvs v ctx)
  then show ?case
    by (auto simp: stack_either_decide split: prod.splits result.splits)
next
  case (6 env t v ctx)
  then show ?case
    by (auto simp: stack_error_none split: prod.splits result.splits pyval.splits)
next
  case (7 env ty v ctx)
  then show ?case by (simp add: stack_error_none)
next
  case (8 env v ctx)
  then show ?case by simp
next
  case (9 env t ts v ctx)
  then show ?case
    by (auto split: prod.splits result.splits exn.splits)
next
  case (10 env t i ctx)
  then show ?case by simp
next
  case (11 env t i el els ctx)
  have s: "stack (snd (step_into ctx ''List'' (at_element i) (wrapper_construct env t el))) = stack ctx"
    by (rule stack_step_into) (rule 11)
  with 11 show ?case
    by (auto split: prod.splits result.splits)
next
  case (12 env fd v ctx)
  then show ?case by (auto split: prod.splits result.splits)
next
  case (13 env kwargs ctx)
  then show ?case by simp
next
  case (14 env p ps kwargs ctx)
  have s: "stack (snd (step_into ctx (traceback_type (snd p)) [Txt (fst p)]
             (set_property env (snd p) (kwargs_get kwargs (fst p))))) = stack ctx"
    by (rule stack_step_into) (rule 14)
  with 14 show ?case
    by (auto split: prod.splits result.splits)
next
  case (15 env cls ctx obj)
  show ?case
  proof (cases "''self'' \<in> set (map fst obj)
                \<or> \<not> list_all ordinary_name (map fst (config_properties (env cls)))")
    case True
    then show ?thesis by auto
  next
    case False
    then have a: "''self'' \<notin> set (map fst obj)"
      and b: "\<not> \<not> list_all ordinary_name (map fst (config_properties (env cls)))"
      by auto
    have "stack (snd (step_into ctx ''Object'' [Txt cls]
             (init_fields env (config_properties (env cls)) obj))) = stack ctx"
      by (rule stack_step_into) (rule 15 [OF a b])
    with False show ?thesis
      by (auto split: prod.splits result.splits option.splits)
  qed
qed

text \<open>
  Claim C8. A scope opened by \<^verbatim>\<open>step_into\<close> removes its frame on every exit path:
  whatever the body returns or raises, the stack after the scope is the stack the body
  left, without its last frame; and every construction call, returning or raising, in
  raise mode or not, at any depth, leaves the frame stack of the context as it found it.
\<close>

theorem step_into_frame_removed:
  "stack (snd (step_into ctx obj name body))
     = butlast (stack (snd (body (push ctx (obj, name)))))
   \<and> stack (snd (field_construct env fd v ctx)) = stack ctx
   \<and> stack (snd (wrapper_construct env t v ctx)) = stack ctx
   \<and> stack (snd (new_with_ctx env cls ctx kwargs)) = stack ctx"
proof -
  have "stack (snd (step_into ctx obj name body))
          = butlast (stack (snd (body (push ctx (obj, name)))))"
    by (cases "body (push ctx (obj, name))") (simp add: step_into_def pop_def)
  then show ?thesis by (simp only: stack_preserved simp_thms)
qed

text \<open>
  Claim C10. \<^verbatim>\<open>REPEAT.construct\<close> on \<^verbatim>\<open>None\<close> returns \<^verbatim>\<open>None\<close> and leaves the context
  as it is (no error, no frame, no element constructed), although \<^verbatim>\<open>default()\<close> is the
  empty list; the empty list appears in \<^verbatim>\<open>_set_property\<close>, which replaces an absent
  result by the default.
\<close>

theorem repeat_construct_none:
  "field_construct env (REPEAT t) VNone ctx = (Return VNone, ctx)
   \<and> default (REPEAT t) = VList []
   \<and> set_property env (REPEAT t) VNone ctx = (Return (VList []), ctx)"
  by simp

section \<open>The alternatives of EITHER\<close>

text \<open>
  Claim C1. With exactly one true truth-bit \<^verbatim>\<open>EITHER._construct\<close> returns
  \<^verbatim>\<open>constructed_values[0]\<close>, the slot of the first type alternative, whichever
  alternative matched. A string offered to \<^verbatim>\<open>EITHER(int, str)\<close> matches \<^verbatim>\<open>str\<close> alone,
  and the result is the empty slot of \<^verbatim>\<open>int\<close>, not the string; the literal
  \<^verbatim>\<open>"circle"\<close> offered to \<^verbatim>\<open>EITHER(Point, "circle")\<close> matches the literal alone, and
  the result is the empty slot of \<^verbatim>\<open>Point\<close>, not the original value. This holds in
  both modes of the context.
\<close>

theorem either_returns_first_slot:
  "fst (field_construct env (EITHER [TInt, TStr] []) (VStr s) ctx) = Return VNone
   \<and> fst (field_construct env (EITHER [TCls ''Point''] [VStr ''circle'']) (VStr ''circle'') ctx)
       = Return VNone"
  by (cases "raise_exceptions ctx")
     (simp_all add: either_decide_def error_none_def error_def Let_def)

text \<open>
  Claim C3. The failure of a type alternative is caught, but \<^verbatim>\<open>ctx.error\<close> has appended
  its message to the list of the context before it raises (and without raising in
  accumulate mode). A string offered to \<^verbatim>\<open>EITHER(str, int)\<close> matches \<^verbatim>\<open>str\<close> and is
  returned, and the context has gained the type error of the alternative \<^verbatim>\<open>int\<close>;
  \<^verbatim>\<open>from_json\<close> of a document with such a field reports a failure.
\<close>

theorem either_failed_alternative_recorded:
  "fst (field_construct env (EITHER [TStr, TInt] []) (VStr s) ctx) = Return (VStr s)
   \<and> errors (snd (field_construct env (EITHER [TStr, TInt] []) (VStr s) ctx))
       = errors ctx @ [error_str (stack ctx) (expected_type_msg TInt (VStr s))]
   \<and> fst (from_json example_classes ''Label'' (VDict [(''text'', VStr ''a'')]))
       = Return (ValueErrorObject [Txt ''Could not load '', TypeName (TCls ''Label'')])"
proof -
  have "fst (field_construct env (EITHER [TStr, TInt] []) (VStr s) ctx) = Return (VStr s)
    \<and> errors (snd (field_construct env (EITHER [TStr, TInt] []) (VStr s) ctx))
       = errors ctx @ [error_str (stack ctx) (expected_type_msg TInt (VStr s))]"
    by (cases "raise_exceptions ctx")
       (simp_all add: either_decide_def error_none_def error_def Let_def)
  moreover have "fst (from_json example_classes ''Label'' (VDict [(''text'', VStr ''a'')]))
       = Return (ValueErrorObject [Txt ''Could not load '', TypeName (TCls ''Label'')])"
    by (simp add: from_json_def example_classes_def example_properties_def ordinary_name_def reserved_names_def
          step_into_def push_def pop_def new_InitContext_def check_keys_def
          traceback_type_def kwargs_get_def either_decide_def error_none_def error_def
          n_errors_def Let_def)
  ultimately show ?thesis by blast
qed

section \<open>Equality of instances\<close>

lemma np_all_self: "np_all (np_eq a a)"
  by (induction a) (simp_all add: np_all_def np_eq_def)

text \<open>
  Claim C7. For an attribute that is a numeric array \<^verbatim>\<open>__eq__\<close> evaluates
  \<^verbatim>\<open>np.all(self_prop == self_prop)\<close>: the array of the first instance is compared with
  itself, and the array of the other instance is not looked at. Two \<^verbatim>\<open>Weights\<close> with
  any two arrays are equal.
\<close>

theorem eq_ignores_other_array:
  "py_eq example_classes (VInst ''Weights'' [(''w'', VArr a)]) (VInst ''Weights'' [(''w'', VArr b)])
     = Return True
   \<and> py_eq example_classes (VInst ''Weights'' [(''w'', VArr [1, 2])])
        (VInst ''Weights'' [(''w'', VArr [3, 4])]) = Return True
   \<and> call_class example_classes ''Weights'' [(''w'', VArr [3, 4])]
       = Return (VInst ''Weights'' [(''w'', VArr [3, 4])])"
  by (simp add: example_classes_def example_properties_def ordinary_name_def reserved_names_def isinstance_def np_all_self
        call_class_def step_into_def push_def pop_def new_InitContext_def
        check_keys_def traceback_type_def kwargs_get_def)

section \<open>The mode of the context\<close>







section \<open>Validity\<close>




section \<open>Scopes that leave the context as it was\<close>


section \<open>Parsing from text: the report\<close>




section \<open>Unknown keys\<close>




section \<open>REPEAT\<close>




section \<open>Round trip\<close>






















end
